theory Spec2Isabelle
  imports Complex_Main
begin

section \<open>Python floats: IEEE 754 binary64, round to nearest, ties to even\<close>

text \<open>
  The converter computes on Python \<^verbatim>\<open>float\<close> values (the docstrings type the value as
  a float, and the form hands over the content of a numeric field that starts at 0.0).
  An integer argument such as the 0 or the 1 of an example stands for the float of the
  same value. A float is a NaN, an infinity, a signed zero, or a finite non-zero number,
  which is kept as the rational it denotes. The flag of \<open>Inf\<close> and \<open>Zero\<close> is the
  sign bit (\<open>True\<close> is negative).
\<close>

datatype float64 = NaN | Inf bool | Zero bool | Fin rat

text \<open>Powers of two with an integer exponent.\<close>

definition pow2 :: "int \<Rightarrow> rat" where
  "pow2 e = (if 0 \<le> e then 2 ^ nat e else 1 / 2 ^ nat (- e))"

text \<open>The number of binary digits of a positive integer.\<close>

function bit_length :: "int \<Rightarrow> nat" where
  "bit_length n = (if n \<le> 0 then 0 else Suc (bit_length (n div 2)))"
  by pat_completeness auto
termination
  by (relation "measure nat") auto

declare bit_length.simps [simp del]

text \<open>
  The binary exponent of a positive rational \<open>a\<close>: the \<open>e\<close> with
  \<open>2 ^ e \<le> a < 2 ^ (e + 1)\<close>. From 1 on it is read off the integer part of \<open>a\<close>;
  below 1 it is read off the reciprocal, where \<open>1 / a \<le> 2 ^ k\<close> holds exactly when
  \<open>\<lceil>1 / a\<rceil> - 1 < 2 ^ k\<close> does.
\<close>

definition floor_log2 :: "rat \<Rightarrow> int" where
  "floor_log2 a =
     (if 1 \<le> a then int (bit_length \<lfloor>a\<rfloor>) - 1
      else - int (bit_length (\<lceil>1 / a\<rceil> - 1)))"

text \<open>Rounding a non-negative rational to the nearest integer, a tie to the even one.\<close>

definition round_half_even :: "rat \<Rightarrow> int" where
  "round_half_even r =
     (let n = \<lfloor>r\<rfloor>; d = r - of_int n
      in if d < 1 / 2 then n
         else if 1 / 2 < d then n + 1
         else if even n then n else n + 1)"

text \<open>
  Rounding an exact result to binary64: 53 significant bits, the least exponent of a
  normal number -1022 (below it the spacing stays \<open>2 ^ -1074\<close>, the subnormal range),
  overflow to an infinity when the rounded magnitude reaches \<open>2 ^ 1024\<close>. A non-zero
  exact result that rounds to zero keeps its sign.
\<close>

definition round64 :: "rat \<Rightarrow> float64" where
  "round64 q =
     (if q = 0 then Zero False
      else
        let a = \<bar>q\<bar>;
            e = max (floor_log2 a) (- 1022);
            u = pow2 (e - 52);
            m = round_half_even (a / u);
            r = of_int m * u
        in if pow2 1024 \<le> r then Inf (q < 0)
           else if m = 0 then Zero (q < 0)
           else Fin (if q < 0 then - r else r))"

text \<open>A float literal of the source text denotes the double nearest to the decimal written.\<close>

definition lit :: "rat \<Rightarrow> float64" where
  "lit q = round64 q"

text \<open>The values of the type: a finite non-zero number is one that rounding leaves alone.\<close>

fun is_double :: "float64 \<Rightarrow> bool" where
  "is_double (Fin q) = (q \<noteq> 0 \<and> round64 q = Fin q)"
| "is_double _ = True"

fun is_zero :: "float64 \<Rightarrow> bool" where
  "is_zero (Zero s) = True"
| "is_zero _ = False"

fun sign_bit :: "float64 \<Rightarrow> bool" where
  "sign_bit (Inf s) = s"
| "sign_bit (Zero s) = s"
| "sign_bit (Fin q) = (q < 0)"
| "sign_bit NaN = False"

fun fneg :: "float64 \<Rightarrow> float64" where
  "fneg NaN = NaN"
| "fneg (Inf s) = Inf (\<not> s)"
| "fneg (Zero s) = Zero (\<not> s)"
| "fneg (Fin q) = Fin (- q)"

text \<open>
  The four operations. A NaN operand, \<open>0 * inf\<close>, \<open>inf - inf\<close>, \<open>0 / 0\<close> and
  \<open>inf / inf\<close> give NaN; otherwise the exact result is rounded. An exact zero sum is
  \<open>+0\<close> unless both summands are \<open>-0\<close>; the sign of a product or a quotient is the
  exclusive or of the operands' signs.
\<close>

fun fadd :: "float64 \<Rightarrow> float64 \<Rightarrow> float64" where
  "fadd NaN y = NaN"
| "fadd x NaN = NaN"
| "fadd (Inf s) (Inf t) = (if s = t then Inf s else NaN)"
| "fadd (Inf s) y = Inf s"
| "fadd x (Inf t) = Inf t"
| "fadd (Zero s) (Zero t) = Zero (s \<and> t)"
| "fadd (Zero s) (Fin b) = Fin b"
| "fadd (Fin a) (Zero t) = Fin a"
| "fadd (Fin a) (Fin b) = round64 (a + b)"

definition fsub :: "float64 \<Rightarrow> float64 \<Rightarrow> float64" where
  "fsub x y = fadd x (fneg y)"

fun fmul :: "float64 \<Rightarrow> float64 \<Rightarrow> float64" where
  "fmul NaN y = NaN"
| "fmul x NaN = NaN"
| "fmul (Inf s) (Zero t) = NaN"
| "fmul (Zero s) (Inf t) = NaN"
| "fmul (Inf s) y = Inf (s \<noteq> sign_bit y)"
| "fmul x (Inf t) = Inf (sign_bit x \<noteq> t)"
| "fmul (Zero s) y = Zero (s \<noteq> sign_bit y)"
| "fmul x (Zero t) = Zero (sign_bit x \<noteq> t)"
| "fmul (Fin a) (Fin b) = round64 (a * b)"

fun fdiv :: "float64 \<Rightarrow> float64 \<Rightarrow> float64" where
  "fdiv NaN y = NaN"
| "fdiv x NaN = NaN"
| "fdiv (Inf s) (Inf t) = NaN"
| "fdiv (Zero s) (Zero t) = NaN"
| "fdiv (Inf s) y = Inf (s \<noteq> sign_bit y)"
| "fdiv x (Zero t) = Inf (sign_bit x \<noteq> t)"
| "fdiv x (Inf t) = Zero (sign_bit x \<noteq> t)"
| "fdiv (Zero s) y = Zero (s \<noteq> sign_bit y)"
| "fdiv (Fin a) (Fin b) = round64 (a / b)"

text \<open>
  Python's \<^verbatim>\<open>==\<close> on floats: a NaN equals nothing, the two zeros are equal.
\<close>

fun feq :: "float64 \<Rightarrow> float64 \<Rightarrow> bool" where
  "feq (Fin a) (Fin b) = (a = b)"
| "feq (Zero s) (Zero t) = True"
| "feq (Inf s) (Inf t) = (s = t)"
| "feq _ _ = False"

section \<open>Python values and errors\<close>

text \<open>
  The tables hold integers (\<^verbatim>\<open>1\<close>, \<^verbatim>\<open>1000\<close>), floats and, for the temperature
  scales, strings. The errors are the exceptions that the subscripts and the arithmetic of
  the two functions can raise; a \<open>KeyError\<close> carries the key that was not found.
\<close>

datatype pyval = PInt int | PFloat float64 | PStr string

datatype error = KeyError string | TypeError | ZeroDivisionError | OverflowError

text \<open>Statements run in sequence; the first exception ends the call.\<close>

definition and_then :: "error + 'a \<Rightarrow> ('a \<Rightarrow> error + 'b) \<Rightarrow> error + 'b" where
  "and_then r f = (case r of Inl err \<Rightarrow> Inl err | Inr x \<Rightarrow> f x)"

text \<open>
  The left operand of every operation of the two functions is a float. An integer on the
  right is converted to a float first (correctly rounded; an integer beyond the range of
  the doubles raises \<^verbatim>\<open>OverflowError\<close>), a string on the right raises
  \<^verbatim>\<open>TypeError\<close>, and a zero divisor raises \<^verbatim>\<open>ZeroDivisionError\<close>.
\<close>

definition float_of_int :: "int \<Rightarrow> error + float64" where
  "float_of_int n =
     (case round64 (of_int n) of Inf s \<Rightarrow> Inl OverflowError | x \<Rightarrow> Inr x)"

fun as_float :: "pyval \<Rightarrow> error + float64" where
  "as_float (PInt n) = float_of_int n"
| "as_float (PFloat x) = Inr x"
| "as_float (PStr s) = Inl TypeError"

definition py_add :: "float64 \<Rightarrow> pyval \<Rightarrow> error + float64" where
  "py_add x e = and_then (as_float e) (\<lambda>y. Inr (fadd x y))"

definition py_sub :: "float64 \<Rightarrow> pyval \<Rightarrow> error + float64" where
  "py_sub x e = and_then (as_float e) (\<lambda>y. Inr (fsub x y))"

definition py_mul :: "float64 \<Rightarrow> pyval \<Rightarrow> error + float64" where
  "py_mul x e = and_then (as_float e) (\<lambda>y. Inr (fmul x y))"

definition py_truediv :: "float64 \<Rightarrow> pyval \<Rightarrow> error + float64" where
  "py_truediv x e =
     and_then (as_float e)
       (\<lambda>y. if is_zero y then Inl ZeroDivisionError else Inr (fdiv x y))"

text \<open>A subscript \<^verbatim>\<open>d[k]\<close> of a dictionary, kept as an association list in source order.\<close>

definition getitem :: "(string \<times> 'v) list \<Rightarrow> string \<Rightarrow> error + 'v" where
  "getitem d k = (case map_of d k of None \<Rightarrow> Inl (KeyError k) | Some v \<Rightarrow> Inr v)"

section \<open>The tables\<close>

type_synonym table = "(string \<times> (string \<times> pyval) list) list"

definition UNITS :: table where
  "UNITS =
     [(''Length'',
        [(''Meter'', PInt 1),
         (''Kilometer'', PInt 1000),
         (''Centimeter'', PFloat (lit (1 / 100))),
         (''Millimeter'', PFloat (lit (1 / 1000))),
         (''Mile'', PFloat (lit (160934 / 100))),
         (''Yard'', PFloat (lit (9144 / 10000))),
         (''Foot'', PFloat (lit (3048 / 10000))),
         (''Inch'', PFloat (lit (254 / 10000)))]),
      (''Weight'',
        [(''Kilogram'', PInt 1),
         (''Gram'', PFloat (lit (1 / 1000))),
         (''Milligram'', PFloat (lit (1 / 1000000))),
         (''Pound'', PFloat (lit (453592 / 1000000))),
         (''Ounce'', PFloat (lit (283495 / 10000000)))]),
      (''Temperature'',
        [(''Celsius'', PStr ''C''),
         (''Fahrenheit'', PStr ''F''),
         (''Kelvin'', PStr ''K'')])]"

section \<open>The conversion functions\<close>

text \<open>
  \<^verbatim>\<open>convert_temperature(value, from_unit, to_unit)\<close>. Python reads
  \<^verbatim>\<open>(value - 32) * 5/9\<close> as \<^verbatim>\<open>((value - 32) * 5) / 9\<close> and
  \<^verbatim>\<open>(celsius * 9/5) + 32\<close> as \<^verbatim>\<open>((celsius * 9) / 5) + 32\<close>.
\<close>

definition convert_temperature :: "float64 \<Rightarrow> string \<Rightarrow> string \<Rightarrow> error + float64" where
  "convert_temperature val from_unit to_unit =
     (if from_unit = to_unit then Inr val
      else
        and_then
          (if from_unit = ''Fahrenheit'' then
             and_then (py_sub val (PInt 32))
               (\<lambda>d. and_then (py_mul d (PInt 5)) (\<lambda>p. py_truediv p (PInt 9)))
           else if from_unit = ''Kelvin'' then py_sub val (PFloat (lit (27315 / 100)))
           else Inr val)
          (\<lambda>celsius.
             if to_unit = ''Fahrenheit'' then
               and_then (py_mul celsius (PInt 9))
                 (\<lambda>p. and_then (py_truediv p (PInt 5)) (\<lambda>d. py_add d (PInt 32)))
             else if to_unit = ''Kelvin'' then py_add celsius (PFloat (lit (27315 / 100)))
             else Inr celsius))"

text \<open>
  \<^verbatim>\<open>convert_unit(value, unit_from, unit_to, unit_type)\<close>. The function reads the
  module's global \<^verbatim>\<open>UNITS\<close>, here its first argument. The subscripts and the
  arithmetic are evaluated in Python's order: the category and the source unit are looked
  up and the product is formed before the target unit is looked up.
\<close>

definition convert_unit ::
  "table \<Rightarrow> float64 \<Rightarrow> string \<Rightarrow> string \<Rightarrow> string \<Rightarrow> error + float64" where
  "convert_unit U val unit_from unit_to unit_type =
     (if unit_type = ''Temperature'' then convert_temperature val unit_from unit_to
      else
        and_then (getitem U unit_type) (\<lambda>tbl.
        and_then (getitem tbl unit_from) (\<lambda>ffrom.
        and_then (py_mul val ffrom) (\<lambda>base_value.
        and_then (getitem U unit_type) (\<lambda>tbl'.
        and_then (getitem tbl' unit_to) (\<lambda>fto.
        py_truediv base_value fto))))))"

section \<open>The functions as programs on the module's state\<close>

text \<open>
  \<^verbatim>\<open>UNITS\<close> is a global variable of the module, and a Python function can assign to
  a global or to an entry of the dictionary it holds. Here the state of the module is
  explicit: a program takes the state, returns a result or raises, and hands on the state
  as it has left it.
\<close>

record globals =
  g_UNITS :: table

type_synonym 'a prog = "globals \<Rightarrow> (error + 'a) \<times> globals"

text \<open>The state in which the module leaves its globals once it is loaded.\<close>

definition module_init :: globals where
  "module_init = \<lparr>g_UNITS = UNITS\<rparr>"

text \<open>
  The steps of a program: returning a value; an operation on values, which gives a
  result or raises and does not touch the state; one step after another, where an
  exception ends the program in the state reached; reading the variable
  \<^verbatim>\<open>UNITS\<close>; and assigning to it, where an assignment to an entry of the
  dictionary counts as the assignment of the table so changed.
\<close>

definition ret :: "'a \<Rightarrow> 'a prog" where
  "ret x s = (Inr x, s)"

definition pure_step :: "error + 'a \<Rightarrow> 'a prog" where
  "pure_step r s = (r, s)"

definition seq :: "'a prog \<Rightarrow> ('a \<Rightarrow> 'b prog) \<Rightarrow> 'b prog" where
  "seq p f s = (case p s of (Inl err, s') \<Rightarrow> (Inl err, s') | (Inr x, s') \<Rightarrow> f x s')"

definition load_UNITS :: "table prog" where
  "load_UNITS s = (Inr (g_UNITS s), s)"

definition assign_UNITS :: "table \<Rightarrow> unit prog" where
  "assign_UNITS U s = (Inr (), s\<lparr>g_UNITS := U\<rparr>)"

text \<open>
  The body of \<^verbatim>\<open>convert_temperature\<close>, statement by statement. It mentions no
  global.
\<close>

definition convert_temperature_st :: "float64 \<Rightarrow> string \<Rightarrow> string \<Rightarrow> float64 prog" where
  "convert_temperature_st val from_unit to_unit =
     (if from_unit = to_unit then ret val
      else
        seq
          (if from_unit = ''Fahrenheit'' then
             seq (pure_step (py_sub val (PInt 32)))
               (\<lambda>d. seq (pure_step (py_mul d (PInt 5)))
                 (\<lambda>p. pure_step (py_truediv p (PInt 9))))
           else if from_unit = ''Kelvin'' then
             pure_step (py_sub val (PFloat (lit (27315 / 100))))
           else ret val)
          (\<lambda>celsius.
             if to_unit = ''Fahrenheit'' then
               seq (pure_step (py_mul celsius (PInt 9)))
                 (\<lambda>p. seq (pure_step (py_truediv p (PInt 5)))
                   (\<lambda>d. pure_step (py_add d (PInt 32))))
             else if to_unit = ''Kelvin'' then
               pure_step (py_add celsius (PFloat (lit (27315 / 100))))
             else ret celsius))"

text \<open>
  The body of \<^verbatim>\<open>convert_unit\<close>. Each of its two lines reads the variable
  \<^verbatim>\<open>UNITS\<close> from the state of that moment.
\<close>

definition convert_unit_st ::
  "float64 \<Rightarrow> string \<Rightarrow> string \<Rightarrow> string \<Rightarrow> float64 prog" where
  "convert_unit_st val unit_from unit_to unit_type =
     (if unit_type = ''Temperature'' then convert_temperature_st val unit_from unit_to
      else
        seq load_UNITS (\<lambda>U.
        seq (pure_step (getitem U unit_type)) (\<lambda>tbl.
        seq (pure_step (getitem tbl unit_from)) (\<lambda>ffrom.
        seq (pure_step (py_mul val ffrom)) (\<lambda>base_value.
        seq load_UNITS (\<lambda>U'.
        seq (pure_step (getitem U' unit_type)) (\<lambda>tbl'.
        seq (pure_step (getitem tbl' unit_to)) (\<lambda>fto.
        pure_step (py_truediv base_value fto)))))))))"

text \<open>
  The operations of the module are calls of the two functions; a run is a sequence of
  calls, each starting in the state that the one before it has left.
\<close>

datatype call =
  ConvertUnit float64 string string string
| ConvertTemperature float64 string string

fun exec :: "globals \<Rightarrow> call \<Rightarrow> (error + float64) \<times> globals" where
  "exec s (ConvertUnit val unit_from unit_to unit_type) =
     convert_unit_st val unit_from unit_to unit_type s"
| "exec s (ConvertTemperature val from_unit to_unit) =
     convert_temperature_st val from_unit to_unit s"

fun run :: "globals \<Rightarrow> call list \<Rightarrow> globals" where
  "run s [] = s"
| "run s (c # cs) = run (snd (exec s c)) cs"

section \<open>Notions of the specification\<close>

text \<open>The unit names of a category, and the factor of a unit as the float it denotes.\<close>

definition unit_names :: "table \<Rightarrow> string \<Rightarrow> string set" where
  "unit_names U unit_type =
     (case map_of U unit_type of None \<Rightarrow> {} | Some tbl \<Rightarrow> fst ` set tbl)"

definition factor :: "table \<Rightarrow> string \<Rightarrow> string \<Rightarrow> float64 option" where
  "factor U unit_type u =
     (case map_of U unit_type of
        None \<Rightarrow> None
      | Some tbl \<Rightarrow>
         (case map_of tbl u of
            None \<Rightarrow> None
          | Some e \<Rightarrow> (case as_float e of Inl err \<Rightarrow> None | Inr x \<Rightarrow> Some x)))"

text \<open>The base units, as the comments of the tables name them.\<close>

definition base_unit :: "string \<Rightarrow> string" where
  "base_unit unit_type = (if unit_type = ''Length'' then ''Meter'' else ''Kilogram'')"

text \<open>A call returns a float that Python's \<^verbatim>\<open>==\<close> finds equal to \<open>x\<close>.\<close>

definition returns_eq :: "error + float64 \<Rightarrow> float64 \<Rightarrow> bool" where
  "returns_eq res x = (case res of Inl err \<Rightarrow> False | Inr r \<Rightarrow> feq r x)"

text \<open>A positive number among the Python values.\<close>

fun positive :: "pyval \<Rightarrow> bool" where
  "positive (PInt n) = (0 < n)"
| "positive (PFloat (Fin q)) = (0 < q)"
| "positive (PFloat (Inf s)) = (\<not> s)"
| "positive _ = False"

text \<open>
  A factor that the conversions can use: a number whose float is finite, positive and a
  double.
\<close>

definition good_factor :: "pyval \<Rightarrow> bool" where
  "good_factor e =
     (case as_float e of
        Inr (Fin q) \<Rightarrow> 0 < q \<and> round64 q = Fin q
      | _ \<Rightarrow> False)"

text \<open>
  The two legs of a temperature conversion as the specification words them: the
  normalisation to Celsius and the conversion from Celsius to the target scale.
\<close>

definition spec_to_celsius :: "string \<Rightarrow> float64 \<Rightarrow> float64" where
  "spec_to_celsius from_unit val =
     (if from_unit = ''Fahrenheit'' then fdiv (fmul (fsub val (lit 32)) (lit 5)) (lit 9)
      else if from_unit = ''Kelvin'' then fsub val (lit (27315 / 100))
      else val)"

definition spec_from_celsius :: "string \<Rightarrow> float64 \<Rightarrow> float64" where
  "spec_from_celsius to_unit celsius =
     (if to_unit = ''Fahrenheit'' then fadd (fdiv (fmul celsius (lit 9)) (lit 5)) (lit 32)
      else if to_unit = ''Kelvin'' then fadd celsius (lit (27315 / 100))
      else celsius)"

text \<open>
  The condition of the specification for a lookup failure: the category is not
  Temperature, and the category is unknown or one of the two units is not in its table.
\<close>

definition lookup_failure :: "table \<Rightarrow> string \<Rightarrow> string \<Rightarrow> string \<Rightarrow> bool" where
  "lookup_failure U unit_from unit_to unit_type =
     (unit_type \<noteq> ''Temperature''
      \<and> (map_of U unit_type = None
         \<or> unit_from \<notin> unit_names U unit_type
         \<or> unit_to \<notin> unit_names U unit_type))"

text \<open>
  The invariant of the tables: the entry of each base unit is the number 1, and every
  entry of the Length and Weight tables is a positive number.
\<close>

definition entry :: "table \<Rightarrow> string \<Rightarrow> string \<Rightarrow> pyval option" where
  "entry U unit_type u =
     (case map_of U unit_type of None \<Rightarrow> None | Some tbl \<Rightarrow> map_of tbl u)"

definition all_positive :: "table \<Rightarrow> string \<Rightarrow> bool" where
  "all_positive U unit_type =
     (case map_of U unit_type of
        None \<Rightarrow> False
      | Some tbl \<Rightarrow> list_all (\<lambda>(k, e). positive e) tbl)"

definition units_invariant :: "table \<Rightarrow> bool" where
  "units_invariant U =
     (entry U ''Length'' ''Meter'' = Some (PInt 1)
      \<and> entry U ''Weight'' ''Kilogram'' = Some (PInt 1)
      \<and> all_positive U ''Length''
      \<and> all_positive U ''Weight'')"

section \<open>Rounding is to a nearest double\<close>

lemma bit_length_bounds:
  "0 < n \<Longrightarrow> 2 ^ (bit_length n - 1) \<le> n \<and> n < 2 ^ bit_length n"
proof (induction n rule: bit_length.induct)
  case (1 n)
  show ?case
  proof (cases "n = 1")
    case True
    then show ?thesis
      by (simp add: bit_length.simps [of 1] bit_length.simps [of 0])
  next
    case False
    with "1.prems" have pos: "0 < n div 2" by simp
    with "1.IH" "1.prems"
    have ih: "2 ^ (bit_length (n div 2) - 1) \<le> n div 2" "n div 2 < 2 ^ bit_length (n div 2)"
      by simp_all
    from pos have bl: "0 < bit_length (n div 2)"
      by (simp add: bit_length.simps [of "n div 2"])
    from "1.prems" have eq: "bit_length n = Suc (bit_length (n div 2))"
      by (simp add: bit_length.simps [of n])
    from bl have "(2::int) ^ bit_length (n div 2) = 2 * 2 ^ (bit_length (n div 2) - 1)"
      by (cases "bit_length (n div 2)") simp_all
    with ih show ?thesis
      unfolding eq by (simp; linarith)
  qed
qed

lemma bit_length_bounds_rat:
  assumes "0 < n"
  shows "(2::rat) ^ (bit_length n - 1) \<le> of_int n" and "of_int n + 1 \<le> (2::rat) ^ bit_length n"
    and "0 < bit_length n"
proof -
  from bit_length_bounds [OF assms]
  have lo: "2 ^ (bit_length n - 1) \<le> n" and hi: "n + 1 \<le> 2 ^ bit_length n" by simp_all
  from lo have "rat_of_int (2 ^ (bit_length n - 1)) \<le> of_int n"
    by (simp only: of_int_le_iff)
  then show "(2::rat) ^ (bit_length n - 1) \<le> of_int n" by simp
  from hi have "rat_of_int (n + 1) \<le> of_int (2 ^ bit_length n)"
    by (simp only: of_int_le_iff)
  then show "of_int n + 1 \<le> (2::rat) ^ bit_length n" by simp
  from assms show "0 < bit_length n" by (simp add: bit_length.simps [of n])
qed

lemma round_half_even_nearest:
  "\<bar>of_int (round_half_even r) - r\<bar> \<le> 1 / 2"
proof -
  have "of_int \<lfloor>r\<rfloor> \<le> r" and "r < of_int \<lfloor>r\<rfloor> + 1"
    by linarith+
  then show ?thesis
    by (auto simp: round_half_even_def Let_def abs_le_iff)
qed

lemma pow2_pos: "0 < pow2 e"
  by (simp add: pow2_def)

lemma pow2_Suc: "pow2 (e + 1) = 2 * pow2 e"
proof (cases "0 \<le> e")
  case True
  then show ?thesis by (simp add: pow2_def nat_add_distrib)
next
  case False
  then have "nat (- e) = Suc (nat (- (e + 1)))" by simp
  with False show ?thesis by (auto simp: pow2_def)
qed

lemma pow2_add: "pow2 (e + int k) = 2 ^ k * pow2 e"
proof (induction k)
  case 0
  show ?case by simp
next
  case (Suc k)
  have "pow2 (e + int (Suc k)) = pow2 ((e + int k) + 1)"
    by (simp add: ac_simps)
  with Suc show ?case
    by (simp only: pow2_Suc power_Suc mult.assoc)
qed

lemma bit_length_split:
  assumes "0 < n"
  obtains k where "bit_length n = Suc k"
    and "(2::rat) ^ k \<le> of_int n" and "of_int n + 1 \<le> 2 * (2::rat) ^ k"
proof -
  from bit_length_bounds_rat(3) [OF assms] obtain k where k: "bit_length n = Suc k"
    by (cases "bit_length n") simp_all
  from bit_length_bounds_rat(1) [OF assms] have "(2::rat) ^ k \<le> of_int n"
    by (simp only: k diff_Suc_1)
  moreover from bit_length_bounds_rat(2) [OF assms] have "of_int n + 1 \<le> 2 * (2::rat) ^ k"
    by (simp only: k power_Suc)
  ultimately show ?thesis using k by (rule that [rotated])
qed

lemma floor_log2_bounds:
  assumes "0 < a"
  shows "pow2 (floor_log2 a) \<le> a \<and> a < pow2 (floor_log2 a + 1)"
proof (cases "1 \<le> a")
  case True
  define n where "n = \<lfloor>a\<rfloor>"
  from True have n: "0 < n" by (simp add: n_def)
  then obtain k where bl: "bit_length n = Suc k"
    and lo: "2 ^ k \<le> rat_of_int n" and hi: "rat_of_int n + 1 \<le> 2 * 2 ^ k"
    by (rule bit_length_split)
  from True have e: "floor_log2 a = int k"
    by (simp add: floor_log2_def n_def [symmetric] bl)
  have "of_int n \<le> a" and "a < of_int n + 1"
    unfolding n_def by linarith+
  with lo hi have "2 ^ k \<le> a" and "a < 2 * 2 ^ k" by linarith+
  then show ?thesis
    unfolding e pow2_Suc by (simp add: pow2_def)
next
  case False
  define m where "m = \<lceil>1 / a\<rceil> - 1"
  from False assms have "1 < 1 / a" by simp
  then have m: "0 < m" unfolding m_def by linarith
  then obtain k where bl: "bit_length m = Suc k"
    and lo: "2 ^ k \<le> rat_of_int m" and hi: "rat_of_int m + 1 \<le> 2 * 2 ^ k"
    by (rule bit_length_split)
  from False have e: "floor_log2 a + 1 = - int k"
    by (simp add: floor_log2_def m_def [symmetric] bl)
  have "1 / a \<le> of_int m + 1" and "of_int m < 1 / a"
    unfolding m_def by linarith+
  with lo hi have up: "1 / a \<le> 2 * 2 ^ k" and dn: "2 ^ k < 1 / a"
    by linarith+
  from up assms have "1 / (2 * 2 ^ k) \<le> a"
    by (simp add: field_simps)
  moreover from dn assms have "a < 1 / 2 ^ k"
    by (simp add: field_simps)
  moreover have "pow2 (- int k) = 1 / 2 ^ k"
    by (simp add: pow2_def)
  ultimately have "pow2 (floor_log2 a + 1) / 2 \<le> a \<and> a < pow2 (floor_log2 a + 1)"
    unfolding e by simp
  then show ?thesis
    by (simp add: pow2_Suc)
qed

text \<open>
  A finite non-zero result of rounding is an integer multiple of the spacing at the
  exponent of the exact value, of at most 53 bits, within half the spacing of the exact
  value, and of the same sign.
\<close>

lemma round64_nearest:
  assumes "round64 q = Fin r"
  defines "u \<equiv> pow2 (max (floor_log2 \<bar>q\<bar>) (- 1022) - 52)"
  shows "\<exists>m. \<bar>r\<bar> = of_int m * u \<and> 0 < m \<and> m \<le> 2 ^ 53"
    and "\<bar>r - q\<bar> \<le> u / 2"
    and "(r < 0) = (q < 0)"
proof -
  define a where "a = \<bar>q\<bar>"
  define m where "m = round_half_even (a / u)"
  from assms(1) have q: "q \<noteq> 0" by (auto simp: round64_def)
  then have a: "0 < a" by (simp add: a_def)
  have u: "0 < u" by (simp add: u_def pow2_pos)
  from assms(1) q have m0: "m \<noteq> 0" and r: "r = (if q < 0 then - (of_int m * u) else of_int m * u)"
    by (auto simp: round64_def Let_def a_def m_def u_def split: if_splits)
  have near: "\<bar>of_int m - a / u\<bar> \<le> 1 / 2"
    unfolding m_def by (rule round_half_even_nearest)
  from a u have "0 < a / u" by simp
  with near have "- 1 < rat_of_int m" by linarith
  then have "- 1 < m" by linarith
  with m0 have mpos: "0 < m" by simp
  from floor_log2_bounds [OF a] have "a < pow2 (floor_log2 a + 1)" by simp
  also have "pow2 (floor_log2 a + 1) \<le> pow2 (max (floor_log2 a) (- 1022) + 1)"
    by (auto simp: pow2_def max_def field_simps intro!: power_increasing)
  also have "max (floor_log2 a) (- 1022) + 1 = (max (floor_log2 a) (- 1022) - 52) + 53"
    by simp
  also have "pow2 (max (floor_log2 a) (- 1022) - 52 + 53) = 2 ^ 53 * u"
    using pow2_add [of "max (floor_log2 a) (- 1022) - 52" 53]
    by (simp add: u_def a_def)
  finally have "a / u < 2 ^ 53" using u by (simp add: field_simps)
  with near have "rat_of_int m < 2 ^ 53 + 1" by linarith
  then have "rat_of_int m < rat_of_int (2 ^ 53 + 1)" by simp
  then have "m < 2 ^ 53 + 1" by (simp only: of_int_less_iff)
  then have mle: "m \<le> 2 ^ 53" by simp
  from mpos u have "\<bar>r\<bar> = of_int m * u"
    by (simp add: r abs_mult)
  with mpos mle show "\<exists>m. \<bar>r\<bar> = of_int m * u \<and> 0 < m \<and> m \<le> 2 ^ 53" by blast
  from u have "of_int m * u - a = (of_int m - a / u) * u"
    by (simp add: field_simps)
  then have "\<bar>of_int m * u - a\<bar> = \<bar>of_int m - a / u\<bar> * u"
    using u by (simp add: abs_mult)
  also from near u have "\<dots> \<le> 1 / 2 * u"
    by (intro mult_right_mono) simp_all
  finally have "\<bar>of_int m * u - a\<bar> \<le> u / 2" by simp
  then show "\<bar>r - q\<bar> \<le> u / 2"
    by (auto simp: r a_def abs_if split: if_splits)
  from mpos u have "0 < of_int m * u" by simp
  then show "(r < 0) = (q < 0)" by (auto simp: r)
qed

section \<open>Evaluating the float operations\<close>

lemma floor_rat_quotient [simp]:
  "\<lfloor>(numeral a :: rat) / numeral b\<rfloor> = numeral a div numeral b"
  by (metis floor_divide_of_int_eq of_int_numeral)

lemma ceiling_rat_quotient [simp]:
  "\<lceil>(numeral a :: rat) / numeral b\<rceil> = - ((- numeral a) div numeral b)"
  by (metis ceiling_def floor_divide_of_int_eq of_int_neg_numeral of_int_numeral
      minus_divide_left)

lemma bit_length_eval:
  "bit_length (numeral k) = Suc (bit_length (numeral k div 2))"
  "bit_length 0 = 0"
  "bit_length 1 = 1"
  by (simp_all add: bit_length.simps [of "numeral k"] bit_length.simps [of 0]
      bit_length.simps [of 1])

lemmas round64_eval =
  round64_def floor_log2_def bit_length_eval pow2_def round_half_even_def Let_def

lemma lit_small [simp]:
  "lit 0 = Zero False"
  "lit 1 = Fin 1"
  "lit 5 = Fin 5"
  "lit 7 = Fin 7"
  "lit 9 = Fin 9"
  "lit 32 = Fin 32"
  "lit 100 = Fin 100"
  "lit 212 = Fin 212"
  "lit 1000 = Fin 1000"
  by (simp_all add: lit_def round64_eval)

text \<open>The literal 273.15, with the fraction in lowest terms.\<close>

lemma lit_kelvin [simp]: "lit (5463 / 20) = Fin (2402652809016115 / 2 ^ 43)"
  by (simp add: lit_def round64_eval)

lemma float_of_int_small [simp]:
  "float_of_int 1 = Inr (Fin 1)"
  "float_of_int 5 = Inr (Fin 5)"
  "float_of_int 9 = Inr (Fin 9)"
  "float_of_int 32 = Inr (Fin 32)"
  "float_of_int 1000 = Inr (Fin 1000)"
  by (simp_all add: float_of_int_def round64_eval)

text \<open>The doubles that the literals of the tables denote.\<close>

lemma UNITS_value:
  "UNITS =
     [(''Length'',
        [(''Meter'', PInt 1),
         (''Kilometer'', PInt 1000),
         (''Centimeter'', PFloat (Fin (5764607523034235 / 2 ^ 59))),
         (''Millimeter'', PFloat (Fin (1152921504606847 / 2 ^ 60))),
         (''Mile'', PFloat (Fin (7077952172180111 / 2 ^ 42))),
         (''Yard'', PFloat (Fin (8236182998535163 / 2 ^ 53))),
         (''Foot'', PFloat (Fin (5490788665690109 / 2 ^ 54))),
         (''Inch'', PFloat (Fin (3660525777126739 / 2 ^ 57)))]),
      (''Weight'',
        [(''Kilogram'', PInt 1),
         (''Gram'', PFloat (Fin (1152921504606847 / 2 ^ 60))),
         (''Milligram'', PFloat (Fin (4722366482869645 / 2 ^ 72))),
         (''Pound'', PFloat (Fin (1021398381089119 / 2 ^ 51))),
         (''Ounce'', PFloat (Fin (1021398381089119 / 2 ^ 55)))]),
      (''Temperature'',
        [(''Celsius'', PStr ''C''),
         (''Fahrenheit'', PStr ''F''),
         (''Kelvin'', PStr ''K'')])]"
  by (simp add: UNITS_def lit_def round64_eval)

section \<open>Facts about the tables\<close>

lemma good_factor_entries:
  assumes "unit_type \<noteq> ''Temperature''"
    and "map_of UNITS unit_type = Some tbl"
    and "map_of tbl u = Some e"
  shows "good_factor e \<and> positive e"
  using assms
  by (auto simp: UNITS_value good_factor_def round64_eval split: if_splits)

lemma good_factorD:
  assumes "good_factor e"
  obtains q where "as_float e = Inr (Fin q)" and "0 < q" and "round64 q = Fin q"
  using assms
  by (auto simp: good_factor_def split: sum.splits float64.splits)

lemma unit_names_iff:
  "map_of U unit_type = Some tbl \<Longrightarrow>
     u \<in> unit_names U unit_type \<longleftrightarrow> (\<exists>e. map_of tbl u = Some e)"
  by (cases "map_of tbl u")
    (auto simp: unit_names_def map_of_eq_None_iff dest: map_of_SomeD intro: rev_image_eqI)

lemma unit_names_table:
  assumes "u \<in> unit_names U unit_type"
  obtains tbl e where "map_of U unit_type = Some tbl" and "map_of tbl u = Some e"
proof -
  from assms obtain tbl where tbl: "map_of U unit_type = Some tbl"
    by (auto simp: unit_names_def split: option.splits)
  with assms obtain e where "map_of tbl u = Some e"
    by (auto simp: unit_names_iff)
  with tbl show ?thesis by (rule that)
qed

lemma base_unit_entry:
  assumes "unit_type = ''Length'' \<or> unit_type = ''Weight''"
    and "map_of UNITS unit_type = Some tbl"
  shows "map_of tbl (base_unit unit_type) = Some (PInt 1)"
  using assms by (auto simp: UNITS_value base_unit_def)

section \<open>Conversions by factor\<close>

text \<open>
  What \<open>convert_unit\<close> returns when both lookups succeed, the entries are numbers and
  the divisor is not zero.
\<close>

lemma convert_unit_known:
  assumes "unit_type \<noteq> ''Temperature''"
    and "map_of U unit_type = Some tbl"
    and "map_of tbl unit_from = Some a" and "as_float a = Inr x"
    and "map_of tbl unit_to = Some b" and "as_float b = Inr y" and "\<not> is_zero y"
  shows "convert_unit U val unit_from unit_to unit_type = Inr (fdiv (fmul val x) y)"
  using assms
  by (simp add: convert_unit_def getitem_def and_then_def py_mul_def py_truediv_def)

text \<open>
  Claim C1. For a category among Length and Weight and two unit names of its table, both
  names have a factor, and \<open>convert_unit\<close> returns the value times the factor of the
  source unit, divided by the factor of the target unit: the float product is formed
  first, the float quotient second.
\<close>

theorem convert_unit_linear:
  assumes "unit_type = ''Length'' \<or> unit_type = ''Weight''"
    and "unit_from \<in> unit_names UNITS unit_type"
    and "unit_to \<in> unit_names UNITS unit_type"
  shows "\<exists>x y. factor UNITS unit_type unit_from = Some x
           \<and> factor UNITS unit_type unit_to = Some y
           \<and> convert_unit UNITS val unit_from unit_to unit_type
               = Inr (fdiv (fmul val x) y)"
proof -
  from assms(1) have nt: "unit_type \<noteq> ''Temperature''" by auto
  from assms(2) obtain tbl a
    where tbl: "map_of UNITS unit_type = Some tbl" and a: "map_of tbl unit_from = Some a"
    by (rule unit_names_table)
  from assms(3) tbl obtain b where b: "map_of tbl unit_to = Some b"
    by (auto simp: unit_names_iff)
  from good_factor_entries [OF nt tbl a] obtain p
    where p: "as_float a = Inr (Fin p)" by (auto elim: good_factorD)
  from good_factor_entries [OF nt tbl b] obtain q
    where q: "as_float b = Inr (Fin q)" by (auto elim: good_factorD)
  have "convert_unit UNITS val unit_from unit_to unit_type
          = Inr (fdiv (fmul val (Fin p)) (Fin q))"
    by (rule convert_unit_known [OF nt tbl a p b q]) simp
  moreover have "factor UNITS unit_type unit_from = Some (Fin p)"
    and "factor UNITS unit_type unit_to = Some (Fin q)"
    by (simp_all add: factor_def tbl a b p q)
  ultimately show ?thesis by blast
qed

text \<open>At 1000 metres in kilometres the product is 1000 and the quotient 1.\<close>

theorem convert_unit_linear_witness:
  "convert_unit UNITS (lit 1000) ''Meter'' ''Kilometer'' ''Length'' = Inr (Fin 1)"
proof -
  have "''Meter'' \<in> unit_names UNITS ''Length''"
    and "''Kilometer'' \<in> unit_names UNITS ''Length''"
    by (simp_all add: unit_names_def UNITS_value)
  from convert_unit_linear [OF _ this, of "lit 1000"]
  show ?thesis
    by (auto simp: factor_def UNITS_value round64_eval)
qed

section \<open>Temperature conversions\<close>

text \<open>The operations with the literals of \<open>convert_temperature\<close> raise nothing.\<close>

lemma py_ops_int [simp]:
  "py_sub x (PInt 32) = Inr (fsub x (Fin 32))"
  "py_add x (PInt 32) = Inr (fadd x (Fin 32))"
  "py_mul x (PInt 5) = Inr (fmul x (Fin 5))"
  "py_mul x (PInt 9) = Inr (fmul x (Fin 9))"
  "py_truediv x (PInt 5) = Inr (fdiv x (Fin 5))"
  "py_truediv x (PInt 9) = Inr (fdiv x (Fin 9))"
  by (simp_all add: py_sub_def py_add_def py_mul_def py_truediv_def and_then_def)

lemma py_ops_float [simp]:
  "py_sub x (PFloat y) = Inr (fsub x y)"
  "py_add x (PFloat y) = Inr (fadd x y)"
  by (simp_all add: py_sub_def py_add_def and_then_def)

text \<open>With different unit names the result is the second leg applied to the first.\<close>

lemma convert_temperature_legs:
  "from_unit \<noteq> to_unit \<Longrightarrow>
     convert_temperature val from_unit to_unit
       = Inr (spec_from_celsius to_unit (spec_to_celsius from_unit val))"
  by (simp add: convert_temperature_def spec_from_celsius_def spec_to_celsius_def and_then_def)

text \<open>
  Claim C2. For two different units among Celsius, Fahrenheit and Kelvin,
  \<open>convert_temperature\<close> returns the conversion from Celsius to the target, applied to
  the normalisation of the value to Celsius, with the formulas of the specification in
  float arithmetic. Through \<open>convert_unit\<close>: 0 Celsius is 32 Fahrenheit, 100 Celsius is
  212 Fahrenheit, 0 Celsius is 273.15 Kelvin and 32 Fahrenheit is 0 Celsius, each equal
  under Python's \<^verbatim>\<open>==\<close>.
\<close>

theorem convert_temperature_two_legs:
  "(from_unit \<in> {''Celsius'', ''Fahrenheit'', ''Kelvin''}
      \<and> to_unit \<in> {''Celsius'', ''Fahrenheit'', ''Kelvin''}
      \<and> from_unit \<noteq> to_unit
      \<longrightarrow> convert_temperature val from_unit to_unit
            = Inr (spec_from_celsius to_unit (spec_to_celsius from_unit val)))
   \<and> returns_eq (convert_unit UNITS (lit 0) ''Celsius'' ''Fahrenheit'' ''Temperature'') (lit 32)
   \<and> returns_eq (convert_unit UNITS (lit 100) ''Celsius'' ''Fahrenheit'' ''Temperature'') (lit 212)
   \<and> returns_eq (convert_unit UNITS (lit 0) ''Celsius'' ''Kelvin'' ''Temperature'')
        (lit (27315 / 100))
   \<and> returns_eq (convert_unit UNITS (lit 32) ''Fahrenheit'' ''Celsius'' ''Temperature'') (lit 0)"
proof -
  have "returns_eq (convert_unit UNITS (lit 0) ''Celsius'' ''Fahrenheit'' ''Temperature'') (lit 32)"
    by (simp add: convert_unit_def convert_temperature_legs spec_from_celsius_def
        spec_to_celsius_def returns_eq_def round64_eval)
  moreover
  have "returns_eq (convert_unit UNITS (lit 100) ''Celsius'' ''Fahrenheit'' ''Temperature'') (lit 212)"
    by (simp add: convert_unit_def convert_temperature_legs spec_from_celsius_def
        spec_to_celsius_def returns_eq_def round64_eval)
  moreover
  have "returns_eq (convert_unit UNITS (lit 0) ''Celsius'' ''Kelvin'' ''Temperature'')
          (lit (27315 / 100))"
    by (simp add: convert_unit_def convert_temperature_legs spec_from_celsius_def
        spec_to_celsius_def returns_eq_def)
  moreover
  have "returns_eq (convert_unit UNITS (lit 32) ''Fahrenheit'' ''Celsius'' ''Temperature'') (lit 0)"
    by (simp add: convert_unit_def convert_temperature_legs spec_from_celsius_def
        spec_to_celsius_def returns_eq_def fsub_def round64_eval)
  ultimately show ?thesis
    by (simp add: convert_temperature_legs)
qed

text \<open>212 Fahrenheit in Kelvin is the double nearest to 373.15.\<close>

theorem convert_temperature_two_legs_witness:
  "convert_temperature (lit 212) ''Fahrenheit'' ''Kelvin'' = Inr (Fin (3282262111236915 / 2 ^ 43))" 
  using convert_temperature_two_legs [of "''Fahrenheit''" "''Kelvin''" "lit 212"]
  by (simp add: spec_from_celsius_def spec_to_celsius_def fsub_def round64_eval)

text \<open>
  Claim C4. \<open>convert_temperature\<close> returns a float for every value and every two
  unit names and raises nothing. A source name other than Fahrenheit and Kelvin is
  treated as Celsius, and so is a target name other than Fahrenheit and Kelvin.
\<close>

theorem convert_temperature_never_raises:
  "(\<exists>r. convert_temperature val from_unit to_unit = Inr r)
   \<and> (from_unit \<noteq> ''Fahrenheit'' \<and> from_unit \<noteq> ''Kelvin''
        \<longrightarrow> convert_temperature val from_unit to_unit
              = convert_temperature val ''Celsius'' to_unit)
   \<and> (to_unit \<noteq> ''Fahrenheit'' \<and> to_unit \<noteq> ''Kelvin''
        \<longrightarrow> convert_temperature val from_unit to_unit
              = convert_temperature val from_unit ''Celsius'')"
  by (simp add: convert_temperature_def and_then_def)

text \<open>The unknown name Rankine, as the source and as the target.\<close>

theorem convert_temperature_never_raises_witness:
  "convert_temperature (lit 1) ''Rankine'' ''Kelvin'' = convert_temperature (lit 1) ''Celsius'' ''Kelvin''
   \<and> convert_temperature (lit 1) ''Kelvin'' ''Rankine'' = convert_temperature (lit 1) ''Kelvin'' ''Celsius''"
  using convert_temperature_never_raises [of "lit 1" "''Rankine''" "''Kelvin''"]
    convert_temperature_never_raises [of "lit 1" "''Kelvin''" "''Rankine''"]
  by simp

text \<open>
  Claim C5. With the same name for source and target, known or not,
  \<open>convert_temperature\<close> returns the value it was given.
\<close>

theorem convert_temperature_same_unit:
  "convert_temperature val u u = Inr val"
  by (simp add: convert_temperature_def)

text \<open>
  Claim C10. When neither name is Fahrenheit or Kelvin, \<open>convert_temperature\<close>
  returns the value it was given, also for two different unknown names.
\<close>

theorem convert_temperature_fall_through:
  assumes "from_unit \<noteq> ''Fahrenheit''" and "from_unit \<noteq> ''Kelvin''"
    and "to_unit \<noteq> ''Fahrenheit''" and "to_unit \<noteq> ''Kelvin''"
  shows "convert_temperature val from_unit to_unit = Inr val"
  using assms by (simp add: convert_temperature_def and_then_def)

text \<open>The two unknown names X and Y.\<close>

theorem convert_temperature_fall_through_witness:
  "convert_temperature (lit 7) ''X'' ''Y'' = Inr (lit 7)"
  using convert_temperature_fall_through [of "''X''" "''Y''" "lit 7"] by simp

section \<open>Lookup failures\<close>

text \<open>The three places where a subscript of \<open>convert_unit\<close> can fail, in order.\<close>

lemma convert_unit_unknown_category:
  assumes "unit_type \<noteq> ''Temperature''" and "map_of U unit_type = None"
  shows "convert_unit U val unit_from unit_to unit_type = Inl (KeyError unit_type)"
  using assms by (simp add: convert_unit_def getitem_def and_then_def)

lemma convert_unit_unknown_from:
  assumes "unit_type \<noteq> ''Temperature''" and "map_of U unit_type = Some tbl"
    and "map_of tbl unit_from = None"
  shows "convert_unit U val unit_from unit_to unit_type = Inl (KeyError unit_from)"
  using assms by (simp add: convert_unit_def getitem_def and_then_def)

lemma convert_unit_unknown_to:
  assumes "unit_type \<noteq> ''Temperature''" and "map_of U unit_type = Some tbl"
    and "map_of tbl unit_from = Some a" and "as_float a = Inr x"
    and "map_of tbl unit_to = None"
  shows "convert_unit U val unit_from unit_to unit_type = Inl (KeyError unit_to)"
  using assms by (simp add: convert_unit_def getitem_def and_then_def py_mul_def)

text \<open>
  On the tables of the module a call either fails with a \<open>KeyError\<close> or returns a
  float, and the condition of the specification tells which.
\<close>

lemma convert_unit_outcome:
  "if lookup_failure UNITS unit_from unit_to unit_type
   then \<exists>k. convert_unit UNITS val unit_from unit_to unit_type = Inl (KeyError k)
   else \<exists>r. convert_unit UNITS val unit_from unit_to unit_type = Inr r"
proof (cases "unit_type = ''Temperature''")
  case True
  then show ?thesis
    by (simp add: lookup_failure_def convert_unit_def convert_temperature_def and_then_def)
next
  case nt: False
  show ?thesis
  proof (cases "map_of UNITS unit_type")
    case None
    with nt show ?thesis
      by (simp add: lookup_failure_def convert_unit_unknown_category)
  next
    case (Some tbl)
    show ?thesis
    proof (cases "map_of tbl unit_from")
      case None
      with nt Some show ?thesis
        by (simp add: lookup_failure_def unit_names_iff convert_unit_unknown_from)
    next
      case a: (Some a)
      from good_factor_entries [OF nt Some a] obtain p
        where p: "as_float a = Inr (Fin p)" by (auto elim: good_factorD)
      show ?thesis
      proof (cases "map_of tbl unit_to")
        case None
        with nt Some a p show ?thesis
          by (simp add: lookup_failure_def unit_names_iff convert_unit_unknown_to)
      next
        case b: (Some b)
        from good_factor_entries [OF nt Some b] obtain q
          where q: "as_float b = Inr (Fin q)" by (auto elim: good_factorD)
        have "convert_unit UNITS val unit_from unit_to unit_type
                = Inr (fdiv (fmul val (Fin p)) (Fin q))"
          by (rule convert_unit_known [OF nt Some a p b q]) simp
        with nt Some a b show ?thesis
          by (simp add: lookup_failure_def unit_names_iff)
      qed
    qed
  qed
qed

text \<open>
  Claim C3. \<open>convert_unit\<close> raises a \<open>KeyError\<close>, and returns no number, exactly
  when the category is not Temperature and the category is unknown or one of the two
  units is not in its table; in every other case it returns a float. The unknown unit
  Foo of Length and the unknown category Bogus both raise the \<open>KeyError\<close>.
\<close>

theorem convert_unit_lookup_failure:
  "((\<exists>k. convert_unit UNITS val unit_from unit_to unit_type = Inl (KeyError k))
      \<longleftrightarrow> lookup_failure UNITS unit_from unit_to unit_type)
   \<and> ((\<exists>r. convert_unit UNITS val unit_from unit_to unit_type = Inr r)
      \<longleftrightarrow> \<not> lookup_failure UNITS unit_from unit_to unit_type)
   \<and> convert_unit UNITS (lit 5) ''Foo'' ''Meter'' ''Length'' = Inl (KeyError ''Foo'')
   \<and> convert_unit UNITS (lit 5) ''Meter'' ''Meter'' ''Bogus'' = Inl (KeyError ''Bogus'')"
proof -
  have "\<exists>tbl. map_of UNITS ''Length'' = Some tbl \<and> map_of tbl ''Foo'' = None"
    by (simp add: UNITS_value)
  then have "convert_unit UNITS (lit 5) ''Foo'' ''Meter'' ''Length'' = Inl (KeyError ''Foo'')"
    by (auto intro: convert_unit_unknown_from)
  moreover
  have "convert_unit UNITS (lit 5) ''Meter'' ''Meter'' ''Bogus'' = Inl (KeyError ''Bogus'')"
    by (rule convert_unit_unknown_category) (simp_all add: UNITS_value)
  moreover
  from convert_unit_outcome [of unit_from unit_to unit_type val]
  have "(\<exists>k. convert_unit UNITS val unit_from unit_to unit_type = Inl (KeyError k))
      \<longleftrightarrow> lookup_failure UNITS unit_from unit_to unit_type"
    and "(\<exists>r. convert_unit UNITS val unit_from unit_to unit_type = Inr r)
      \<longleftrightarrow> \<not> lookup_failure UNITS unit_from unit_to unit_type"
    by (auto split: if_splits)
  ultimately show ?thesis by blast
qed

text \<open>An unknown target unit fails; metres to inches do not.\<close>

theorem convert_unit_lookup_failure_witness:
  "isl (convert_unit UNITS (lit 5) ''Meter'' ''Foo'' ''Length'')
   \<and> \<not> isl (convert_unit UNITS (lit 5) ''Meter'' ''Inch'' ''Length'')"
proof -
  have "lookup_failure UNITS ''Meter'' ''Foo'' ''Length''"
    and "\<not> lookup_failure UNITS ''Meter'' ''Inch'' ''Length''"
    by (simp_all add: lookup_failure_def unit_names_def UNITS_value)
  with convert_unit_lookup_failure [of "lit 5" "''Meter''" "''Foo''" "''Length''"]
    convert_unit_lookup_failure [of "lit 5" "''Meter''" "''Inch''" "''Length''"]
  show ?thesis by auto
qed

section \<open>Same-unit conversions\<close>

text \<open>
  In the Temperature category a same-unit conversion returns the value it was given. So
  does a conversion by factor from a base unit to itself, for every double: multiplying
  and dividing by 1 is exact.
\<close>

lemma convert_unit_same_temperature:
  "convert_unit U val u u ''Temperature'' = Inr val"
  by (simp add: convert_unit_def convert_temperature_def)

lemma fmul_one: "is_double x \<Longrightarrow> fmul x (Fin 1) = x"
  by (cases x) simp_all

lemma fdiv_one: "is_double x \<Longrightarrow> fdiv x (Fin 1) = x"
  by (cases x) simp_all

lemma convert_unit_same_base_unit:
  assumes "unit_type = ''Length'' \<or> unit_type = ''Weight''" and "is_double val"
  shows "convert_unit UNITS val (base_unit unit_type) (base_unit unit_type) unit_type
           = Inr val"
proof -
  from assms(1) have nt: "unit_type \<noteq> ''Temperature''" by auto
  from assms(1) obtain tbl where tbl: "map_of UNITS unit_type = Some tbl"
    by (auto simp: UNITS_value)
  note one = base_unit_entry [OF assms(1) tbl]
  have "convert_unit UNITS val (base_unit unit_type) (base_unit unit_type) unit_type
          = Inr (fdiv (fmul val (Fin 1)) (Fin 1))"
    by (rule convert_unit_known [OF nt tbl one _ one]) simp_all
  with assms(2) show ?thesis
    by (simp add: fmul_one fdiv_one)
qed

text \<open>
  Claim C6 says that a conversion from a unit to itself returns a value equal to the one
  given, in every category. The temperature path returns the value before any
  arithmetic. The path by factor has no such test: it multiplies by the factor and
  divides by it again, and each of the two float operations rounds. At 7 centimetres the
  product is the double nearest to 0.07 and the quotient is \<open>7 + 2 ^ -50\<close>, the double
  after 7, which Python's \<^verbatim>\<open>==\<close> tells from 7.
\<close>

theorem convert_unit_same_unit_drift:
  "convert_unit UNITS (lit 7) ''Centimeter'' ''Centimeter'' ''Length''
     = Inr (Fin (7 + 1 / 2 ^ 50))
   \<and> \<not> returns_eq (convert_unit UNITS (lit 7) ''Centimeter'' ''Centimeter'' ''Length'') (lit 7)"
proof -
  have "\<exists>tbl. map_of UNITS ''Length'' = Some tbl
          \<and> map_of tbl ''Centimeter'' = Some (PFloat (Fin (5764607523034235 / 2 ^ 59)))"
    by (simp add: UNITS_value)
  then obtain tbl where tbl: "map_of UNITS ''Length'' = Some tbl"
    and cm: "map_of tbl ''Centimeter'' = Some (PFloat (Fin (5764607523034235 / 2 ^ 59)))"
    by blast
  have "convert_unit UNITS (lit 7) ''Centimeter'' ''Centimeter'' ''Length''
          = Inr (fdiv (fmul (lit 7) (Fin (5764607523034235 / 2 ^ 59)))
                   (Fin (5764607523034235 / 2 ^ 59)))"
    by (rule convert_unit_known [OF _ tbl cm _ cm]) simp_all
  also have "fmul (lit 7) (Fin (5764607523034235 / 2 ^ 59)) = Fin (1261007895663739 / 2 ^ 54)"
    by (simp add: round64_eval)
  also have "fdiv (Fin (1261007895663739 / 2 ^ 54)) (Fin (5764607523034235 / 2 ^ 59))
               = Fin (7 + 1 / 2 ^ 50)"
    by (simp add: round64_eval)
  finally show ?thesis
    by (simp add: returns_eq_def)
qed

section \<open>Base units and zero\<close>

text \<open>
  Claim C7. For a category among Length and Weight and a unit of its table, converting
  the value 1 to the base unit of the category (Meter, Kilogram) returns the factor of
  the unit, equal under Python's \<^verbatim>\<open>==\<close>.
\<close>

theorem convert_unit_to_base_unit:
  assumes "unit_type = ''Length'' \<or> unit_type = ''Weight''"
    and "u \<in> unit_names UNITS unit_type"
  shows "\<exists>x. factor UNITS unit_type u = Some x
           \<and> convert_unit UNITS (lit 1) u (base_unit unit_type) unit_type = Inr x
           \<and> returns_eq (convert_unit UNITS (lit 1) u (base_unit unit_type) unit_type) x"
proof -
  from assms(1) have nt: "unit_type \<noteq> ''Temperature''" by auto
  from assms(2) obtain tbl a
    where tbl: "map_of UNITS unit_type = Some tbl" and a: "map_of tbl u = Some a"
    by (rule unit_names_table)
  from good_factor_entries [OF nt tbl a] obtain p
    where p: "as_float a = Inr (Fin p)" and r: "round64 p = Fin p"
    by (auto elim: good_factorD)
  have "convert_unit UNITS (lit 1) u (base_unit unit_type) unit_type
          = Inr (fdiv (fmul (lit 1) (Fin p)) (Fin 1))"
    by (rule convert_unit_known [OF nt tbl a p base_unit_entry [OF assms(1) tbl]]) simp_all
  also have "fdiv (fmul (lit 1) (Fin p)) (Fin 1) = Fin p"
    by (simp add: r)
  finally have "convert_unit UNITS (lit 1) u (base_unit unit_type) unit_type = Inr (Fin p)" .
  moreover have "factor UNITS unit_type u = Some (Fin p)"
    by (simp add: factor_def tbl a p)
  ultimately show ?thesis
    by (simp add: returns_eq_def)
qed

text \<open>One mile in metres is the double that the literal 1609.34 denotes.\<close>

theorem convert_unit_to_base_unit_witness:
  "convert_unit UNITS (lit 1) ''Mile'' ''Meter'' ''Length''
     = Inr (Fin (7077952172180111 / 2 ^ 42))"
proof -
  have "''Mile'' \<in> unit_names UNITS ''Length''"
    by (simp add: unit_names_def UNITS_value)
  from convert_unit_to_base_unit [OF _ this]
  show ?thesis
    by (auto simp: factor_def UNITS_value base_unit_def)
qed

text \<open>
  Claim C9. For two units of the Length table, or two of the Weight table,
  \<open>convert_unit\<close> takes the value 0 to 0.
\<close>

theorem convert_unit_zero:
  assumes "unit_type = ''Length'' \<or> unit_type = ''Weight''"
    and "unit_from \<in> unit_names UNITS unit_type"
    and "unit_to \<in> unit_names UNITS unit_type"
  shows "convert_unit UNITS (lit 0) unit_from unit_to unit_type = Inr (lit 0)
         \<and> returns_eq (convert_unit UNITS (lit 0) unit_from unit_to unit_type) (lit 0)"
proof -
  from assms(1) have nt: "unit_type \<noteq> ''Temperature''" by auto
  from assms(2) obtain tbl a
    where tbl: "map_of UNITS unit_type = Some tbl" and a: "map_of tbl unit_from = Some a"
    by (rule unit_names_table)
  from assms(3) tbl obtain b where b: "map_of tbl unit_to = Some b"
    by (auto simp: unit_names_iff)
  from good_factor_entries [OF nt tbl a] obtain p
    where p: "as_float a = Inr (Fin p)" and "0 < p" by (auto elim: good_factorD)
  from good_factor_entries [OF nt tbl b] obtain q
    where q: "as_float b = Inr (Fin q)" and "0 < q" by (auto elim: good_factorD)
  have "convert_unit UNITS (lit 0) unit_from unit_to unit_type
          = Inr (fdiv (fmul (lit 0) (Fin p)) (Fin q))"
    by (rule convert_unit_known [OF nt tbl a p b q]) simp
  also from \<open>0 < p\<close> \<open>0 < q\<close> have "fdiv (fmul (lit 0) (Fin p)) (Fin q) = lit 0"
    by simp
  finally show ?thesis
    by (simp add: returns_eq_def)
qed

text \<open>Zero pounds in ounces.\<close>

theorem convert_unit_zero_witness:
  "convert_unit UNITS (lit 0) ''Pound'' ''Ounce'' ''Weight'' = Inr (Zero False)"
proof -
  have "''Pound'' \<in> unit_names UNITS ''Weight''"
    and "''Ounce'' \<in> unit_names UNITS ''Weight''"
    by (simp_all add: unit_names_def UNITS_value)
  from convert_unit_zero [OF _ this]
  show ?thesis by simp
qed

section \<open>The invariant of the tables\<close>

text \<open>
  Run on a state, each body gives what the function of the same name gives on the table
  of that state, and hands the state on as it was: the steps of the two bodies are
  comparisons, subscript reads and float arithmetic, and none of them is an assignment
  to the global or to an entry of it.
\<close>

lemma convert_temperature_st_result:
  "convert_temperature_st val from_unit to_unit s
     = (convert_temperature val from_unit to_unit, s)"
  by (simp add: convert_temperature_st_def convert_temperature_def and_then_def
      seq_def ret_def pure_step_def)

lemma convert_unit_st_result:
  "convert_unit_st val unit_from unit_to unit_type s
     = (convert_unit (g_UNITS s) val unit_from unit_to unit_type, s)"
  by (simp add: convert_unit_st_def convert_unit_def convert_temperature_st_result
      and_then_def seq_def load_UNITS_def pure_step_def
      split: sum.splits)

lemma exec_state: "snd (exec s c) = s"
  by (cases c) (simp_all add: convert_unit_st_result convert_temperature_st_result)

lemma run_state: "run s cs = s"
  by (induction cs arbitrary: s) (simp_all add: exec_state)

text \<open>
  The state does record an assignment: a program that assigned another table to the
  global would leave a state that differs from the one the module starts in.
\<close>

lemma assign_UNITS_changes: "snd (assign_UNITS [] module_init) \<noteq> module_init"
  by (simp add: assign_UNITS_def module_init_def UNITS_def)

text \<open>
  Claim C8. In the tables of the module the factor of each base unit (Meter, Kilogram)
  is the number 1 and every factor of the Length and Weight tables is a positive number.
  A call of \<open>convert_unit\<close> or of \<open>convert_temperature\<close>, in any state, with any
  arguments, whether it returns or raises, leaves the state of the module as it found
  it and computes on the table of that state. So after any sequence of calls the tables
  are the ones the module started with, and the invariant holds of them.
\<close>

theorem units_invariant_preserved:
  "units_invariant (g_UNITS module_init)
   \<and> convert_unit_st val unit_from unit_to unit_type s
       = (convert_unit (g_UNITS s) val unit_from unit_to unit_type, s)
   \<and> convert_temperature_st val from_unit to_unit s
       = (convert_temperature val from_unit to_unit, s)
   \<and> run s cs = s
   \<and> g_UNITS (run module_init cs) = UNITS
   \<and> units_invariant (g_UNITS (run module_init cs))"
proof -
  have "units_invariant (g_UNITS module_init)"
    by (simp add: module_init_def units_invariant_def entry_def all_positive_def
        UNITS_value)
  then show ?thesis
    by (simp add: convert_unit_st_result convert_temperature_st_result run_state
        module_init_def)
qed

end
